theory Spec2Isabelle
  imports Complex_Main
begin

section \<open>The account store\<close>

text \<open>
  The service keeps one SQLite table, \<^verbatim>\<open>users\<close>, created by \<^verbatim>\<open>init_db\<close>
  (main.py, lines 27-44). A row of the table is a record with one field per column.
  The two columns that the code leaves or sets to NULL are options; the others are
  always written with a value (by the INSERT of \<^verbatim>\<open>register\<close> or by a column default).
  The table is the list of its rows in insertion order.
\<close>

record user =
  email :: string
  api_key :: string
  stripe_customer_id :: "string option"
  stripe_subscription_id :: "string option"
  plan :: string
  expires_at :: int
  max_workers :: int
  created_at :: int

type_synonym db = "user list"

text \<open>A freshly created table is empty; the schema fixes two column defaults.\<close>

definition init_db :: db where
  "init_db = []"

definition default_plan :: string where
  "default_plan = ''trial''"

definition default_max_workers :: int where
  "default_max_workers = 1"

subsection \<open>Exceptions, JSON bodies and responses\<close>

text \<open>
  The exceptions the handlers can meet. In the Stripe library
  \<^verbatim>\<open>SignatureVerificationError\<close> is a subclass of \<^verbatim>\<open>StripeError\<close>, so an
  \<^verbatim>\<open>except stripe.error.StripeError\<close> clause catches both.
\<close>

datatype py_exn =
    ValueError
  | SignatureVerificationError string
  | StripeError string
  | IntegrityError
  | TypeError
  | OtherException string

fun is_stripe_error :: "py_exn \<Rightarrow> bool" where
  "is_stripe_error (StripeError m) = True"
| "is_stripe_error (SignatureVerificationError m) = True"
| "is_stripe_error e = False"

fun str_exn :: "py_exn \<Rightarrow> string" where
  "str_exn (StripeError m) = m"
| "str_exn (SignatureVerificationError m) = m"
| "str_exn (OtherException m) = m"
| "str_exn e = []"

datatype json = JNull | JBool bool | JInt int | JStr string

record response =
  status :: nat
  body :: "(string \<times> json) list"

text \<open>
  \<^verbatim>\<open>jsonify(d)\<close> alone answers with status 200; \<^verbatim>\<open>jsonify(d), n\<close> with status n.
  A handler either returns a response or lets an exception escape (\<open>Inl\<close>); Flask
  answers an escaped exception with its own generic 500 page.
\<close>

definition jsonify :: "nat \<Rightarrow> (string \<times> json) list \<Rightarrow> py_exn + response" where
  "jsonify code kvs = Inr \<lparr>status = code, body = kvs\<rparr>"

type_synonym outcome = "db \<times> (py_exn + response)"

text \<open>Python truthiness of an optional string: neither None nor the empty string.\<close>

fun truthy :: "string option \<Rightarrow> bool" where
  "truthy None = False"
| "truthy (Some s) = (s \<noteq> [])"

subsection \<open>The payment processor and the configuration\<close>

text \<open>
  A webhook event, reduced to the fields the handler reads:
  \<^verbatim>\<open>event['type']\<close>, and of \<^verbatim>\<open>event['data']['object']\<close> the entries
  \<^verbatim>\<open>'id'\<close>, \<^verbatim>\<open>'status'\<close>, \<^verbatim>\<open>'subscription'\<close> and \<^verbatim>\<open>['metadata'].get('api_key')\<close>.
\<close>

record event =
  ev_type :: string
  obj_id :: string
  obj_status :: string
  obj_subscription :: "string option"
  obj_metadata_api_key :: "string option"

text \<open>
  The Stripe library is outside the repository. Each call the handlers make is a
  field of the environment: it returns a value or raises.
  \<^item> \<open>customer_create em key\<close>: \<^verbatim>\<open>stripe.Customer.create(email=em, metadata={'api_key': key})\<close>,
    returning \<^verbatim>\<open>customer.id\<close>;
  \<^item> \<open>subscription_retrieve sid\<close>: \<^verbatim>\<open>stripe.Subscription.retrieve(sid).status\<close>;
  \<^item> \<open>subscription_modify sid\<close>: \<^verbatim>\<open>stripe.Subscription.modify(sid, cancel_at_period_end=True)\<close>;
  \<^item> \<open>session_create customer customer_email price key\<close>:
    \<^verbatim>\<open>stripe.checkout.Session.create(...)\<close>, returning \<^verbatim>\<open>session.url\<close>;
  \<^item> \<open>construct_event payload sig_header secret\<close>: \<^verbatim>\<open>stripe.Webhook.construct_event\<close>.
\<close>

record stripe =
  customer_create :: "string \<Rightarrow> string \<Rightarrow> py_exn + string"
  subscription_retrieve :: "string \<Rightarrow> py_exn + string"
  subscription_modify :: "string \<Rightarrow> py_exn + unit"
  session_create :: "string option \<Rightarrow> string option \<Rightarrow> string \<Rightarrow> string \<Rightarrow> py_exn + string"
  construct_event :: "string \<Rightarrow> string option \<Rightarrow> string \<Rightarrow> py_exn + event"

record config =
  STRIPE_WEBHOOK_SECRET :: string
  STRIPE_PRICE_ID :: string

subsection \<open>SQL statements\<close>

text \<open>\<^verbatim>\<open>SELECT ... WHERE c = ?\<close> followed by \<^verbatim>\<open>fetchone()\<close>: the first matching row.\<close>

definition select_by_email :: "db \<Rightarrow> string \<Rightarrow> user option" where
  "select_by_email d em = find (\<lambda>u. email u = em) d"

definition select_by_api_key :: "db \<Rightarrow> string \<Rightarrow> user option" where
  "select_by_api_key d k = find (\<lambda>u. api_key u = k) d"

text \<open>
  \<^verbatim>\<open>INSERT INTO users\<close>: \<^verbatim>\<open>email\<close> is the primary key and \<^verbatim>\<open>api_key\<close> is UNIQUE,
  so a row repeating either raises \<^verbatim>\<open>sqlite3.IntegrityError\<close>.
\<close>

definition insert_user :: "db \<Rightarrow> user \<Rightarrow> py_exn + db" where
  "insert_user d u =
     (if email u \<in> set (map email d) \<or> api_key u \<in> set (map api_key d)
      then Inl IntegrityError else Inr (d @ [u]))"

text \<open>\<^verbatim>\<open>UPDATE users SET ... WHERE ...\<close>: every row the condition selects is rewritten.\<close>

definition sql_update :: "(user \<Rightarrow> bool) \<Rightarrow> (user \<Rightarrow> user) \<Rightarrow> db \<Rightarrow> db" where
  "sql_update P f d = map (\<lambda>u. if P u then f u else u) d"

section \<open>The request handlers\<close>

definition health :: "db \<Rightarrow> outcome" where
  "health d = (d, jsonify 200 [(''status'', JStr ''healthy'')])"

text \<open>
  \<^verbatim>\<open>register\<close> (lines 51-97). Its arguments beside the table: the \<^verbatim>\<open>email\<close> entry
  of the JSON body, the random token of \<^verbatim>\<open>secrets.token_urlsafe(32)\<close>, the value
  \<^verbatim>\<open>expires\<close> computed on line 59 and the clock of the \<^verbatim>\<open>created_at\<close> default.
  The handler of \<^verbatim>\<open>StripeError\<close> adds a string and an exception object, which raises
  \<^verbatim>\<open>TypeError\<close>; after an \<^verbatim>\<open>IntegrityError\<close> the row is looked up by email and
  indexed, which raises \<^verbatim>\<open>TypeError\<close> when there is none.
\<close>

definition register :: "stripe \<Rightarrow> db \<Rightarrow> string option \<Rightarrow> string \<Rightarrow> int \<Rightarrow> int \<Rightarrow> outcome" where
  "register env d email_field token expires created =
     (case email_field of
        None \<Rightarrow> (d, jsonify 400 [(''error'', JStr ''Email required'')])
      | Some em \<Rightarrow>
          if em = [] then (d, jsonify 400 [(''error'', JStr ''Email required'')])
          else
            let key = ''mk_'' @ token in
            (case customer_create env em key of
               Inl e \<Rightarrow> if is_stripe_error e then (d, Inl TypeError) else (d, Inl e)
             | Inr cid \<Rightarrow>
                 (case insert_user d
                         \<lparr>email = em, api_key = key, stripe_customer_id = Some cid,
                          stripe_subscription_id = None, plan = default_plan,
                          expires_at = expires, max_workers = default_max_workers,
                          created_at = created\<rparr> of
                    Inr d' \<Rightarrow>
                      (d', jsonify 200 [(''api_key'', JStr key), (''plan'', JStr ''trial''),
                                        (''trial_ends'', JInt expires)])
                  | Inl _ \<Rightarrow>
                      (case select_by_email d em of
                         None \<Rightarrow> (d, Inl TypeError)
                       | Some u \<Rightarrow>
                           (d, jsonify 200 [(''api_key'', JStr (api_key u)),
                                            (''plan'', JStr (plan u)),
                                            (''existing_user'', JBool True)])))))"

text \<open>
  \<^verbatim>\<open>verify\<close> (lines 99-155). \<open>now\<close> is \<^verbatim>\<open>datetime.now().timestamp()\<close>; Python
  compares the integer \<^verbatim>\<open>expires_at\<close> with it exactly. The last two returns
  (lines 141-155) use the row as it was read before the processor was asked.
\<close>

definition cached_status :: "user \<Rightarrow> real \<Rightarrow> py_exn + response" where
  "cached_status u now =
     (if plan u = ''trial'' \<and> real_of_int (expires_at u) < now
      then jsonify 200 [(''valid'', JBool True), (''plan'', JStr ''trial_expired''),
                        (''max_workers'', JInt 1), (''trial_expired'', JBool True)]
      else jsonify 200 [(''valid'', JBool True), (''plan'', JStr (plan u)),
                        (''max_workers'', JInt (max_workers u)), (''email'', JStr (email u))])"

definition verify :: "stripe \<Rightarrow> db \<Rightarrow> string option \<Rightarrow> real \<Rightarrow> outcome" where
  "verify env d header now =
     (case header of
        None \<Rightarrow> (d, jsonify 401 [(''valid'', JBool False), (''error'', JStr ''No API key provided'')])
      | Some k \<Rightarrow>
          if k = [] then
            (d, jsonify 401 [(''valid'', JBool False), (''error'', JStr ''No API key provided'')])
          else
            (case select_by_api_key d k of
               None \<Rightarrow>
                 (d, jsonify 401 [(''valid'', JBool False), (''error'', JStr ''Invalid API key'')])
             | Some u \<Rightarrow>
                 (case stripe_subscription_id u of
                    None \<Rightarrow> (d, cached_status u now)
                  | Some sid \<Rightarrow>
                      if sid = [] then (d, cached_status u now)
                      else
                        (case subscription_retrieve env sid of
                           Inr st \<Rightarrow>
                             if st \<noteq> ''active'' then
                               (sql_update (\<lambda>r. api_key r = k)
                                           (\<lambda>r. r\<lparr>plan := ''free'', max_workers := 1\<rparr>) d,
                                jsonify 200 [(''valid'', JBool True), (''plan'', JStr ''free''),
                                             (''max_workers'', JInt 1),
                                             (''subscription_expired'', JBool True)])
                             else (d, cached_status u now)
                         | Inl e \<Rightarrow>
                             if is_stripe_error e then (d, cached_status u now)
                             else (d, Inl e)))))"

text \<open>\<^verbatim>\<open>create_checkout\<close> (lines 157-198) and \<^verbatim>\<open>cancel_subscription\<close> (lines 200-229).\<close>

definition create_checkout :: "config \<Rightarrow> stripe \<Rightarrow> db \<Rightarrow> string option \<Rightarrow> outcome" where
  "create_checkout cfg env d header =
     (case header of
        None \<Rightarrow> (d, jsonify 401 [(''error'', JStr ''Authentication required'')])
      | Some k \<Rightarrow>
          if k = [] then (d, jsonify 401 [(''error'', JStr ''Authentication required'')])
          else
            (case select_by_api_key d k of
               None \<Rightarrow> (d, jsonify 401 [(''error'', JStr ''Invalid API key'')])
             | Some u \<Rightarrow>
                 (case session_create env (stripe_customer_id u)
                         (if \<not> truthy (stripe_customer_id u) then Some (email u) else None)
                         (STRIPE_PRICE_ID cfg) k of
                    Inr url \<Rightarrow> (d, jsonify 200 [(''url'', JStr url)])
                  | Inl e \<Rightarrow>
                      if is_stripe_error e then (d, jsonify 500 [(''error'', JStr (str_exn e))])
                      else (d, Inl e))))"

definition cancel_subscription :: "stripe \<Rightarrow> db \<Rightarrow> string option \<Rightarrow> outcome" where
  "cancel_subscription env d header =
     (case header of
        None \<Rightarrow> (d, jsonify 401 [(''error'', JStr ''Authentication required'')])
      | Some k \<Rightarrow>
          if k = [] then (d, jsonify 401 [(''error'', JStr ''Authentication required'')])
          else
            (case select_by_api_key d k of
               None \<Rightarrow> (d, jsonify 400 [(''error'', JStr ''No active subscription'')])
             | Some u \<Rightarrow>
                 (case stripe_subscription_id u of
                    None \<Rightarrow> (d, jsonify 400 [(''error'', JStr ''No active subscription'')])
                  | Some sid \<Rightarrow>
                      if sid = [] then (d, jsonify 400 [(''error'', JStr ''No active subscription'')])
                      else
                        (case subscription_modify env sid of
                           Inr _ \<Rightarrow>
                             (d, jsonify 200 [(''success'', JBool True),
                                              (''message'', JStr ''Subscription will cancel at period end'')])
                         | Inl e \<Rightarrow>
                             if is_stripe_error e then (d, jsonify 500 [(''error'', JStr (str_exn e))])
                             else (d, Inl e)))))"

text \<open>
  \<^verbatim>\<open>webhook\<close> (lines 231-298). \<open>apply_event\<close> is the \<^verbatim>\<open>if/elif\<close> chain of lines
  246-295 on a constructed event; an SQL comparison with a NULL column is never true,
  so only rows with a stored subscription id can match.
\<close>

definition apply_event :: "db \<Rightarrow> event \<Rightarrow> db" where
  "apply_event d ev =
     (if ev_type ev = ''checkout.session.completed'' then
        (case obj_metadata_api_key ev of
           None \<Rightarrow> d
         | Some k \<Rightarrow>
             if k = [] then d
             else sql_update (\<lambda>r. api_key r = k)
                    (\<lambda>r. r\<lparr>plan := ''pro'', max_workers := 8,
                            stripe_subscription_id := obj_subscription ev\<rparr>) d)
      else if ev_type ev = ''customer.subscription.updated'' then
        (if obj_status ev = ''active'' then
           sql_update (\<lambda>r. stripe_subscription_id r = Some (obj_id ev))
             (\<lambda>r. r\<lparr>plan := ''pro'', max_workers := 8\<rparr>) d
         else if obj_status ev \<in> set [''canceled'', ''unpaid''] then
           sql_update (\<lambda>r. stripe_subscription_id r = Some (obj_id ev))
             (\<lambda>r. r\<lparr>plan := ''free'', max_workers := 1\<rparr>) d
         else d)
      else if ev_type ev = ''customer.subscription.deleted'' then
        sql_update (\<lambda>r. stripe_subscription_id r = Some (obj_id ev))
          (\<lambda>r. r\<lparr>plan := ''free'', max_workers := 1, stripe_subscription_id := None\<rparr>) d
      else d)"

fun is_signature_failure :: "py_exn \<Rightarrow> bool" where
  "is_signature_failure ValueError = True"
| "is_signature_failure (SignatureVerificationError m) = True"
| "is_signature_failure e = False"

definition webhook :: "config \<Rightarrow> stripe \<Rightarrow> db \<Rightarrow> string \<Rightarrow> string option \<Rightarrow> outcome" where
  "webhook cfg env d payload sig_header =
     (case construct_event env payload sig_header (STRIPE_WEBHOOK_SECRET cfg) of
        Inl e \<Rightarrow>
          if is_signature_failure e then (d, jsonify 400 [(''error'', JStr ''Invalid signature'')])
          else (d, Inl e)
      | Inr ev \<Rightarrow> (apply_event d ev, jsonify 200 [(''received'', JBool True)]))"

text \<open>
  \<^verbatim>\<open>admin_stats\<close> (lines 300-319): \<^verbatim>\<open>COUNT(*)\<close> and three \<^verbatim>\<open>SUM\<close>s, which
  are NULL on an empty table.
\<close>

definition sum_plan :: "db \<Rightarrow> string \<Rightarrow> json" where
  "sum_plan d p = (if d = [] then JNull else JInt (int (length (filter (\<lambda>u. plan u = p) d))))"

definition admin_stats :: "db \<Rightarrow> outcome" where
  "admin_stats d =
     (d, jsonify 200 [(''total_users'', JInt (int (length d))),
                      (''trial_users'', sum_plan d ''trial''),
                      (''pro_users'', sum_plan d ''pro''),
                      (''free_users'', sum_plan d ''free'')])"

subsection \<open>The service as a whole\<close>

datatype request =
    Health
  | Register "string option" string int int
  | Verify "string option" real
  | CreateCheckout "string option"
  | CancelSubscription "string option"
  | Webhook string "string option"
  | AdminStats

fun handle :: "config \<Rightarrow> stripe \<Rightarrow> db \<Rightarrow> request \<Rightarrow> outcome" where
  "handle cfg env d Health = health d"
| "handle cfg env d (Register em token expires created) = register env d em token expires created"
| "handle cfg env d (Verify header now) = verify env d header now"
| "handle cfg env d (CreateCheckout header) = create_checkout cfg env d header"
| "handle cfg env d (CancelSubscription header) = cancel_subscription env d header"
| "handle cfg env d (Webhook payload sig_header) = webhook cfg env d payload sig_header"
| "handle cfg env d AdminStats = admin_stats d"

section \<open>Invariants of the table\<close>

text \<open>The bound on concurrency: every row allows one worker or eight.\<close>

definition workers_ok :: "db \<Rightarrow> bool" where
  "workers_ok d = list_all (\<lambda>u. max_workers u = 1 \<or> max_workers u = 8) d"

text \<open>The two uniqueness constraints of the schema.\<close>

definition wf_db :: "db \<Rightarrow> bool" where
  "wf_db d = (distinct (map email d) \<and> distinct (map api_key d))"

text \<open>The tables the service can reach from a fresh one, whatever the processor does.\<close>

inductive reachable :: "db \<Rightarrow> bool" where
  reachable_init: "reachable init_db"
| reachable_step: "reachable d \<Longrightarrow> reachable (fst (handle cfg env d req))"

section \<open>Sample data\<close>

definition cfg0 :: config where
  "cfg0 = \<lparr>STRIPE_WEBHOOK_SECRET = ''whsec_test'', STRIPE_PRICE_ID = ''price_1''\<rparr>"

definition alice :: user where
  "alice = \<lparr>email = ''alice@example.com'', api_key = ''mk_a1'',
            stripe_customer_id = Some ''cus_1'', stripe_subscription_id = None,
            plan = ''trial'', expires_at = 1000, max_workers = 1, created_at = 10\<rparr>"

definition bob :: user where
  "bob = \<lparr>email = ''bob@example.com'', api_key = ''mk_b2'',
          stripe_customer_id = Some ''cus_2'', stripe_subscription_id = Some ''sub_2'',
          plan = ''pro'', expires_at = 2000, max_workers = 8, created_at = 20\<rparr>"

definition carol :: user where
  "carol = \<lparr>email = ''carol@example.com'', api_key = ''mk_c3'',
            stripe_customer_id = Some ''cus_3'', stripe_subscription_id = Some ''sub_3'',
            plan = ''trial'', expires_at = 1000, max_workers = 1, created_at = 30\<rparr>"

text \<open>
  A processor whose API calls all succeed and whose webhook check accepts exactly the
  signature header equal to the secret, delivering the event \<open>ev\<close>; and a processor
  that is unreachable, every call raising \<^verbatim>\<open>StripeError\<close>.
\<close>

definition stripe_up :: "event \<Rightarrow> stripe" where
  "stripe_up ev =
     \<lparr>customer_create = (\<lambda>em key. Inr ''cus_9''),
      subscription_retrieve = (\<lambda>sid. Inr ''active''),
      subscription_modify = (\<lambda>sid. Inr ()),
      session_create = (\<lambda>c ce p k. Inr ''https://checkout.example/s1''),
      construct_event = (\<lambda>payload sig_header secret.
         if sig_header = Some secret then Inr ev
         else Inl (SignatureVerificationError ''No signatures found''))\<rparr>"

definition stripe_down :: stripe where
  "stripe_down =
     \<lparr>customer_create = (\<lambda>em key. Inl (StripeError ''api down'')),
      subscription_retrieve = (\<lambda>sid. Inl (StripeError ''api down'')),
      subscription_modify = (\<lambda>sid. Inl (StripeError ''api down'')),
      session_create = (\<lambda>c ce p k. Inl (StripeError ''api down'')),
      construct_event = (\<lambda>payload sig_header secret.
         Inl (SignatureVerificationError ''No signatures found''))\<rparr>"

definition ev_deleted :: event where
  "ev_deleted = \<lparr>ev_type = ''customer.subscription.deleted'', obj_id = ''sub_2'',
                 obj_status = ''canceled'', obj_subscription = None,
                 obj_metadata_api_key = None\<rparr>"

definition ev_updated :: "string \<Rightarrow> event" where
  "ev_updated st = \<lparr>ev_type = ''customer.subscription.updated'', obj_id = ''sub_2'',
                    obj_status = st, obj_subscription = None,
                    obj_metadata_api_key = None\<rparr>"

definition ev_checkout :: "string option \<Rightarrow> event" where
  "ev_checkout k = \<lparr>ev_type = ''checkout.session.completed'', obj_id = ''cs_1'',
                    obj_status = ''complete'', obj_subscription = Some ''sub_7'',
                    obj_metadata_api_key = k\<rparr>"

section \<open>Auxiliary facts\<close>

subsection \<open>Selecting and updating rows\<close>

lemma find_email_mem: "find (\<lambda>u. email u = em) d = Some u \<Longrightarrow> em \<in> email ` set d"
  by (induction d) (auto split: if_splits)

lemma find_api_key_None: "k \<notin> api_key ` set d \<Longrightarrow> find (\<lambda>u. api_key u = k) d = None"
  by (induction d) auto

lemma find_append_new:
  "\<forall>r \<in> set d. \<not> P r \<Longrightarrow> P u \<Longrightarrow> find P (d @ [u]) = Some u"
  by (induction d) auto

lemma find_distinct_key:
  "distinct (map g d) \<Longrightarrow> u \<in> set d \<Longrightarrow> find (\<lambda>r. g r = g u) d = Some u"
  by (induction d) auto

lemma sql_update_length: "length (sql_update P f d) = length d"
  by (simp add: sql_update_def)

lemma sql_update_nth:
  "i < length d \<Longrightarrow> sql_update P f d ! i = (if P (d ! i) then f (d ! i) else d ! i)"
  by (simp add: sql_update_def)

lemma sql_update_keys:
  assumes "\<And>u. email (f u) = email u" and "\<And>u. api_key (f u) = api_key u"
  shows "map email (sql_update P f d) = map email d"
    and "map api_key (sql_update P f d) = map api_key d"
  using assms by (simp_all add: sql_update_def)

lemma create_checkout_db: "fst (create_checkout cfg env d header) = d"
  by (auto simp: create_checkout_def split: option.splits sum.splits)

lemma cancel_subscription_db: "fst (cancel_subscription env d header) = d"
  by (auto simp: cancel_subscription_def split: option.splits sum.splits)

subsection \<open>One account per email, one account per key\<close>

lemma wf_db_sql_update:
  assumes "wf_db d" and "\<And>u. email (f u) = email u" and "\<And>u. api_key (f u) = api_key u"
  shows "wf_db (sql_update P f d)"
  using assms by (simp add: wf_db_def sql_update_keys)

lemma wf_db_apply_event: "wf_db d \<Longrightarrow> wf_db (apply_event d ev)"
  by (auto simp: apply_event_def intro!: wf_db_sql_update split: option.splits)

lemma wf_db_register:
  "wf_db d \<Longrightarrow> wf_db (fst (register env d em token expires created))"
  by (auto simp: register_def insert_user_def Let_def wf_db_def
           split: option.splits sum.splits if_splits)

lemma wf_db_verify: "wf_db d \<Longrightarrow> wf_db (fst (verify env d header now))"
  by (auto simp: verify_def intro!: wf_db_sql_update split: option.splits sum.splits)

lemma wf_db_webhook: "wf_db d \<Longrightarrow> wf_db (fst (webhook cfg env d payload sig_header))"
  by (auto simp: webhook_def wf_db_apply_event split: sum.splits)

lemma wf_db_handle:
  assumes "wf_db d"
  shows "wf_db (fst (handle cfg env d req))"
  using assms
  by (cases req)
     (simp_all add: health_def admin_stats_def create_checkout_db cancel_subscription_db
        wf_db_register wf_db_verify wf_db_webhook)

lemma reachable_wf_db: "reachable d \<Longrightarrow> wf_db d"
proof (induction rule: reachable.induct)
  case reachable_init
  show ?case by (simp add: wf_db_def init_db_def)
next
  case (reachable_step d cfg env req)
  then show ?case by (simp add: wf_db_handle)
qed

text \<open>Under the uniqueness constraints a key selects the one row that carries it.\<close>

lemma select_by_api_key_row:
  "wf_db d \<Longrightarrow> u \<in> set d \<Longrightarrow> select_by_api_key d (api_key u) = Some u"
  by (simp add: wf_db_def select_by_api_key_def find_distinct_key)

lemma select_by_email_row:
  "wf_db d \<Longrightarrow> u \<in> set d \<Longrightarrow> select_by_email d (email u) = Some u"
  by (simp add: wf_db_def select_by_email_def find_distinct_key)

subsection \<open>The concurrency bound, handler by handler\<close>

lemma workers_ok_sql_update:
  assumes "workers_ok d" and "\<And>u. P u \<Longrightarrow> max_workers (f u) = 1 \<or> max_workers (f u) = 8"
  shows "workers_ok (sql_update P f d)"
  using assms by (auto simp: workers_ok_def sql_update_def list_all_iff)

lemma workers_ok_apply_event: "workers_ok d \<Longrightarrow> workers_ok (apply_event d ev)"
  by (auto simp: apply_event_def intro!: workers_ok_sql_update split: option.splits)

lemma workers_ok_register:
  "workers_ok d \<Longrightarrow> workers_ok (fst (register env d em token expires created))"
  by (auto simp: register_def insert_user_def Let_def workers_ok_def default_max_workers_def
           split: option.splits sum.splits if_splits)

lemma workers_ok_verify: "workers_ok d \<Longrightarrow> workers_ok (fst (verify env d header now))"
  by (auto simp: verify_def intro!: workers_ok_sql_update split: option.splits sum.splits)

lemma workers_ok_webhook:
  "workers_ok d \<Longrightarrow> workers_ok (fst (webhook cfg env d payload sig_header))"
  by (auto simp: webhook_def workers_ok_apply_event split: sum.splits)

lemma reachable_workers_ok: "reachable d \<Longrightarrow> workers_ok d"
proof (induction rule: reachable.induct)
  case reachable_init
  show ?case by (simp add: workers_ok_def init_db_def)
next
  case (reachable_step d cfg env req)
  then show ?case
    by (cases req)
       (simp_all add: health_def admin_stats_def create_checkout_db cancel_subscription_db
          workers_ok_register workers_ok_verify workers_ok_webhook)
qed

subsection \<open>A first registration and a second one\<close>

lemma register_new:
  assumes "em \<noteq> []"
    and "em \<notin> email ` set d"
    and "''mk_'' @ token \<notin> api_key ` set d"
    and "customer_create env em (''mk_'' @ token) = Inr cid"
  shows "register env d (Some em) token expires created =
           (d @ [\<lparr>email = em, api_key = ''mk_'' @ token, stripe_customer_id = Some cid,
                   stripe_subscription_id = None, plan = ''trial'', expires_at = expires,
                   max_workers = 1, created_at = created\<rparr>],
            jsonify 200 [(''api_key'', JStr (''mk_'' @ token)), (''plan'', JStr ''trial''),
                         (''trial_ends'', JInt expires)])"
  using assms
  by (simp add: register_def insert_user_def default_plan_def default_max_workers_def Let_def)

lemma register_twice_same_key:
  assumes "em \<noteq> []"
    and "em \<notin> email ` set d"
    and "''mk_'' @ t1 \<notin> api_key ` set d"
    and "customer_create env1 em (''mk_'' @ t1) = Inr c1"
    and "customer_create env2 em (''mk_'' @ t2) = Inr c2"
    and "register env1 d (Some em) t1 x1 n1 = (d1, r1)"
  shows "r1 = jsonify 200 [(''api_key'', JStr (''mk_'' @ t1)), (''plan'', JStr ''trial''),
                           (''trial_ends'', JInt x1)]"
    and "register env2 d1 (Some em) t2 x2 n2 =
           (d1, jsonify 200 [(''api_key'', JStr (''mk_'' @ t1)), (''plan'', JStr ''trial''),
                             (''existing_user'', JBool True)])"
proof -
  let ?u = "\<lparr>email = em, api_key = ''mk_'' @ t1, stripe_customer_id = Some c1,
              stripe_subscription_id = None, plan = ''trial'', expires_at = x1,
              max_workers = 1, created_at = n1\<rparr>"
  from register_new [OF assms(1-4), of x1 n1] assms(6)
  have d1: "d1 = d @ [?u]" and r1: "r1 = jsonify 200 [(''api_key'', JStr (''mk_'' @ t1)),
        (''plan'', JStr ''trial''), (''trial_ends'', JInt x1)]"
    by simp_all
  show "r1 = jsonify 200 [(''api_key'', JStr (''mk_'' @ t1)), (''plan'', JStr ''trial''),
                           (''trial_ends'', JInt x1)]"
    by (rule r1)
  from assms(2) have sel: "select_by_email d1 em = Some ?u"
    unfolding d1 select_by_email_def by (intro find_append_new) auto
  have "em \<in> email ` set d1"
    by (simp add: d1)
  with sel assms(1) assms(5)
  show "register env2 d1 (Some em) t2 x2 n2 =
           (d1, jsonify 200 [(''api_key'', JStr (''mk_'' @ t1)), (''plan'', JStr ''trial''),
                             (''existing_user'', JBool True)])"
    by (simp add: register_def insert_user_def)
qed

section \<open>The properties of the specification\<close>

subsection \<open>Webhook authenticity\<close>

text \<open>
  Claim C1. When the construction of the event from the raw payload, the
  \<^verbatim>\<open>Stripe-Signature\<close> header and the webhook secret fails (a missing, malformed or
  non-matching signature raises \<^verbatim>\<open>SignatureVerificationError\<close>, an undecodable
  payload \<^verbatim>\<open>ValueError\<close>), the webhook handler answers 400 and the user table is
  the one it started from.
\<close>

theorem webhook_invalid_signature_rejected:
  assumes "construct_event env payload sig_header (STRIPE_WEBHOOK_SECRET cfg) = Inl e"
    and "is_signature_failure e"
  shows "webhook cfg env d payload sig_header =
           (d, Inr \<lparr>status = 400, body = [(''error'', JStr ''Invalid signature'')]\<rparr>)"
  using assms by (simp add: webhook_def jsonify_def)

theorem webhook_invalid_signature_rejected_witness:
  "webhook cfg0 (stripe_up ev_deleted) [alice, bob] ''{}'' None =
     ([alice, bob], Inr \<lparr>status = 400, body = [(''error'', JStr ''Invalid signature'')]\<rparr>)"
  using webhook_invalid_signature_rejected
          [of "stripe_up ev_deleted" "''{}''" None cfg0
              "SignatureVerificationError ''No signatures found''" "[alice, bob]"]
  by (simp add: stripe_up_def cfg0_def)

subsection \<open>Registration\<close>

text \<open>
  Claim C2, as the code has it. The handler asks the processor for a customer before
  it touches the table. For an email that already has an account, when that call
  returns, the INSERT is refused, the stored row is read back, and the answer carries
  the stored \<^verbatim>\<open>api_key\<close>; the table is unchanged.
\<close>

theorem register_existing_email_idempotent:
  assumes "select_by_email d em = Some u"
    and "em \<noteq> []"
    and "customer_create env em (''mk_'' @ token) = Inr cid"
  shows "register env d (Some em) token expires created =
           (d, Inr \<lparr>status = 200,
                    body = [(''api_key'', JStr (api_key u)), (''plan'', JStr (plan u)),
                            (''existing_user'', JBool True)]\<rparr>)"
proof -
  from assms(1) have "em \<in> email ` set d"
    unfolding select_by_email_def by (rule find_email_mem)
  with assms show ?thesis
    by (simp add: register_def insert_user_def jsonify_def)
qed

theorem register_existing_email_idempotent_witness:
  "register (stripe_up ev_deleted) [alice, bob] (Some ''alice@example.com'') ''zz'' 5000 40 =
     ([alice, bob], Inr \<lparr>status = 200,
        body = [(''api_key'', JStr ''mk_a1''), (''plan'', JStr ''trial''),
                (''existing_user'', JBool True)]\<rparr>)"
  using register_existing_email_idempotent
          [of "[alice, bob]" "''alice@example.com''" alice "stripe_up ev_deleted" "''zz''"
              "''cus_9''" 5000 40]
  by (simp add: select_by_email_def alice_def bob_def stripe_up_def)

text \<open>
  Without the condition on the processor the statement fails: with the processor
  unreachable, a second registration of a stored email returns no \<^verbatim>\<open>api_key\<close>.
\<close>

theorem register_existing_email_counterexample:
  "select_by_email [alice, bob] ''alice@example.com'' = Some alice \<and>
   register stripe_down [alice, bob] (Some ''alice@example.com'') ''zz'' 5000 40 =
     ([alice, bob], Inl TypeError)"
  by (simp add: select_by_email_def register_def alice_def bob_def stripe_down_def)

text \<open>
  Claim C7. On a new email, when the processor raises, the claim expects a 500 answer
  whose body carries the processor's message. The handler builds that body by adding
  the exception object to a string, so it raises \<^verbatim>\<open>TypeError\<close> and returns no body
  at all; no row is created.
\<close>

theorem register_stripe_error_raises_TypeError:
  "select_by_email [alice] ''new@example.com'' = None \<and>
   customer_create stripe_down ''new@example.com'' ''mk_t0'' = Inl (StripeError ''api down'') \<and>
   register stripe_down [alice] (Some ''new@example.com'') ''t0'' 5000 40 = ([alice], Inl TypeError)"
  by (simp add: register_def select_by_email_def stripe_down_def alice_def)

subsection \<open>Verification\<close>

text \<open>
  Claim C3. Let the presented key select an account whose stored plan is \<^verbatim>\<open>trial\<close>
  and whose expiry lies strictly before the current time, and let the subscription
  check, if one is made, either report \<^verbatim>\<open>active\<close> or fail with a processor error.
  Then verify answers plan \<^verbatim>\<open>trial_expired\<close> with one worker, and the table, so the
  stored plan, is unchanged.
\<close>

theorem verify_trial_expired:
  assumes "k \<noteq> []"
    and "select_by_api_key d k = Some u"
    and "plan u = ''trial''"
    and "real_of_int (expires_at u) < now"
    and "\<And>sid st. stripe_subscription_id u = Some sid \<Longrightarrow> sid \<noteq> [] \<Longrightarrow>
           subscription_retrieve env sid = Inr st \<Longrightarrow> st = ''active''"
    and "\<And>sid e. stripe_subscription_id u = Some sid \<Longrightarrow> sid \<noteq> [] \<Longrightarrow>
           subscription_retrieve env sid = Inl e \<Longrightarrow> is_stripe_error e"
  shows "verify env d (Some k) now =
           (d, Inr \<lparr>status = 200,
                    body = [(''valid'', JBool True), (''plan'', JStr ''trial_expired''),
                            (''max_workers'', JInt 1), (''trial_expired'', JBool True)]\<rparr>)"
proof (cases "stripe_subscription_id u")
  case None
  with assms(1-4) show ?thesis
    by (simp add: verify_def cached_status_def jsonify_def)
next
  case (Some sid)
  show ?thesis
  proof (cases "sid = []")
    case True
    with Some assms(1-4) show ?thesis
      by (simp add: verify_def cached_status_def jsonify_def)
  next
    case False
    show ?thesis
    proof (cases "subscription_retrieve env sid")
      case (Inl e)
      with assms(6) [OF Some False] have "is_stripe_error e" by simp
      with Inl Some False assms(1-4) show ?thesis
        by (simp add: verify_def cached_status_def jsonify_def)
    next
      case (Inr st)
      with assms(5) [OF Some False] have "st = ''active''" by simp
      with Inr Some False assms(1-4) show ?thesis
        by (simp add: verify_def cached_status_def jsonify_def)
    qed
  qed
qed

theorem verify_trial_expired_witness:
  "verify (stripe_up ev_deleted) [alice, carol] (Some ''mk_c3'') 1000.5 =
     ([alice, carol], Inr \<lparr>status = 200,
                    body = [(''valid'', JBool True), (''plan'', JStr ''trial_expired''),
                            (''max_workers'', JInt 1), (''trial_expired'', JBool True)]\<rparr>) \<and>
   select_by_api_key [alice, carol] ''mk_c3'' = Some carol \<and> plan carol = ''trial''"
proof -
  have sel: "select_by_api_key [alice, carol] ''mk_c3'' = Some carol"
    by (simp add: select_by_api_key_def alice_def carol_def)
  have pl: "plan carol = ''trial''" by (simp add: carol_def)
  have ex: "real_of_int (expires_at carol) < 1000.5" by (simp add: carol_def)
  have "verify (stripe_up ev_deleted) [alice, carol] (Some ''mk_c3'') 1000.5 =
     ([alice, carol], Inr \<lparr>status = 200,
                    body = [(''valid'', JBool True), (''plan'', JStr ''trial_expired''),
                            (''max_workers'', JInt 1), (''trial_expired'', JBool True)]\<rparr>)"
    by (rule verify_trial_expired [OF _ sel pl ex]) (simp_all add: stripe_up_def)
  with sel pl show ?thesis by simp
qed

text \<open>
  Claim C6. A verify request whose \<^verbatim>\<open>X-API-Key\<close> header is absent, or is the key of
  no stored account, is answered 401 with \<^verbatim>\<open>valid\<close> false, and the table is
  unchanged.
\<close>

theorem verify_unknown_key:
  assumes "header = None \<or> (\<exists>k. header = Some k \<and> k \<notin> api_key ` set d)"
  shows "verify env d header now =
           (d, Inr \<lparr>status = 401,
                    body = [(''valid'', JBool False),
                            (''error'', JStr (if truthy header then ''Invalid API key''
                                              else ''No API key provided''))]\<rparr>)"
  using assms
  by (auto simp: verify_def jsonify_def select_by_api_key_def find_api_key_None)

theorem verify_unknown_key_witness:
  "verify stripe_down [alice, bob] (Some ''mk_zz'') 5 =
     ([alice, bob], Inr \<lparr>status = 401,
        body = [(''valid'', JBool False), (''error'', JStr ''Invalid API key'')]\<rparr>)"
  using verify_unknown_key [of "Some ''mk_zz''" "[alice, bob]" stripe_down 5]
  by (simp add: alice_def bob_def)

text \<open>
  Claim C8. For an account with a stored subscription id, when the status query
  raises a processor error, verify still answers 200: the entitlement is the one of
  the row as stored (plan and \<^verbatim>\<open>max_workers\<close>, or \<^verbatim>\<open>trial_expired\<close> with one worker
  for a trial past its expiry), and the table is unchanged.
\<close>

theorem verify_stripe_failure_falls_back:
  assumes "k \<noteq> []"
    and "select_by_api_key d k = Some u"
    and "stripe_subscription_id u = Some sid"
    and "subscription_retrieve env sid = Inl e"
    and "is_stripe_error e"
  shows "verify env d (Some k) now =
           (d, if plan u = ''trial'' \<and> real_of_int (expires_at u) < now
               then Inr \<lparr>status = 200,
                         body = [(''valid'', JBool True), (''plan'', JStr ''trial_expired''),
                                 (''max_workers'', JInt 1), (''trial_expired'', JBool True)]\<rparr>
               else Inr \<lparr>status = 200,
                         body = [(''valid'', JBool True), (''plan'', JStr (plan u)),
                                 (''max_workers'', JInt (max_workers u)),
                                 (''email'', JStr (email u))]\<rparr>)"
  using assms by (simp add: verify_def cached_status_def jsonify_def)

theorem verify_stripe_failure_falls_back_witness:
  "verify stripe_down [alice, bob] (Some ''mk_b2'') 5 =
     ([alice, bob], Inr \<lparr>status = 200,
        body = [(''valid'', JBool True), (''plan'', JStr ''pro''),
                (''max_workers'', JInt 8), (''email'', JStr ''bob@example.com'')]\<rparr>)"
  using verify_stripe_failure_falls_back
          [of "''mk_b2''" "[alice, bob]" bob "''sub_2''" stripe_down "StripeError ''api down''" 5]
  by (simp add: select_by_api_key_def alice_def bob_def stripe_down_def)

subsection \<open>Webhook reconciliation\<close>

text \<open>
  Claim C4. After a verified \<^verbatim>\<open>customer.subscription.deleted\<close> event, every row whose
  stored subscription id is the event's has plan \<^verbatim>\<open>free\<close>, one worker and no
  subscription id, whatever its plan was; its other columns are as before.
\<close>

theorem webhook_subscription_deleted:
  assumes "construct_event env payload sig_header (STRIPE_WEBHOOK_SECRET cfg) = Inr ev"
    and "ev_type ev = ''customer.subscription.deleted''"
    and "i < length d"
    and "stripe_subscription_id (d ! i) = Some (obj_id ev)"
  shows "length (fst (webhook cfg env d payload sig_header)) = length d \<and>
         fst (webhook cfg env d payload sig_header) ! i =
           (d ! i)\<lparr>plan := ''free'', max_workers := 1, stripe_subscription_id := None\<rparr>"
  using assms by (simp add: webhook_def apply_event_def sql_update_length sql_update_nth)

theorem webhook_subscription_deleted_witness:
  "length (fst (webhook cfg0 (stripe_up ev_deleted) [alice, bob] ''{}'' (Some ''whsec_test''))) = 2 \<and>
   fst (webhook cfg0 (stripe_up ev_deleted) [alice, bob] ''{}'' (Some ''whsec_test'')) ! 1 =
     bob\<lparr>plan := ''free'', max_workers := 1, stripe_subscription_id := None\<rparr>"
  using webhook_subscription_deleted
          [of "stripe_up ev_deleted" "''{}''" "Some ''whsec_test''" cfg0 ev_deleted 1 "[alice, bob]"]
  by (simp add: stripe_up_def cfg0_def ev_deleted_def bob_def)

text \<open>
  Claim C5, as the code has it. After a verified \<^verbatim>\<open>customer.subscription.updated\<close>
  event, a row whose stored subscription id is the event's is set to \<^verbatim>\<open>pro\<close> with
  eight workers when the status is \<^verbatim>\<open>active\<close>, to \<^verbatim>\<open>free\<close> with one worker when the
  status is \<^verbatim>\<open>canceled\<close> or \<^verbatim>\<open>unpaid\<close>, and is left as it was for any other status.
\<close>

theorem webhook_subscription_updated:
  assumes "construct_event env payload sig_header (STRIPE_WEBHOOK_SECRET cfg) = Inr ev"
    and "ev_type ev = ''customer.subscription.updated''"
    and "i < length d"
    and "stripe_subscription_id (d ! i) = Some (obj_id ev)"
  shows "length (fst (webhook cfg env d payload sig_header)) = length d \<and>
         fst (webhook cfg env d payload sig_header) ! i =
           (if obj_status ev = ''active'' then (d ! i)\<lparr>plan := ''pro'', max_workers := 8\<rparr>
            else if obj_status ev = ''canceled'' \<or> obj_status ev = ''unpaid''
                 then (d ! i)\<lparr>plan := ''free'', max_workers := 1\<rparr>
            else d ! i)"
  using assms by (simp add: webhook_def apply_event_def sql_update_length sql_update_nth)

theorem webhook_subscription_updated_witness:
  "length (fst (webhook cfg0 (stripe_up (ev_updated ''canceled'')) [alice, bob] ''{}''
                  (Some ''whsec_test''))) = 2 \<and>
   fst (webhook cfg0 (stripe_up (ev_updated ''canceled'')) [alice, bob] ''{}''
          (Some ''whsec_test'')) ! 1 =
     bob\<lparr>plan := ''free'', max_workers := 1\<rparr>"
  using webhook_subscription_updated
          [of "stripe_up (ev_updated ''canceled'')" "''{}''" "Some ''whsec_test''" cfg0
              "ev_updated ''canceled''" 1 "[alice, bob]"]
  by (simp add: stripe_up_def cfg0_def ev_updated_def bob_def)

text \<open>
  A status that is neither \<^verbatim>\<open>active\<close> nor one of the two listed leaves the matching
  account on \<^verbatim>\<open>pro\<close> with eight workers: \<^verbatim>\<open>past_due\<close> is such a status.
\<close>

theorem webhook_subscription_updated_counterexample:
  "construct_event (stripe_up (ev_updated ''past_due'')) ''{}'' (Some ''whsec_test'')
      (STRIPE_WEBHOOK_SECRET cfg0) = Inr (ev_updated ''past_due'') \<and>
   ev_type (ev_updated ''past_due'') = ''customer.subscription.updated'' \<and>
   obj_status (ev_updated ''past_due'') \<noteq> ''active'' \<and>
   stripe_subscription_id bob = Some (obj_id (ev_updated ''past_due'')) \<and>
   webhook cfg0 (stripe_up (ev_updated ''past_due'')) [alice, bob] ''{}'' (Some ''whsec_test'') =
     ([alice, bob], Inr \<lparr>status = 200, body = [(''received'', JBool True)]\<rparr>) \<and>
   plan bob = ''pro'' \<and> max_workers bob = 8"
  by (simp add: webhook_def apply_event_def cfg0_def stripe_up_def ev_updated_def bob_def
        jsonify_def)

text \<open>
  Claim C10. A verified \<^verbatim>\<open>checkout.session.completed\<close> event whose session metadata
  has no \<^verbatim>\<open>api_key\<close> updates nothing, and the handler still acknowledges it.
\<close>

theorem webhook_checkout_without_api_key:
  assumes "construct_event env payload sig_header (STRIPE_WEBHOOK_SECRET cfg) = Inr ev"
    and "ev_type ev = ''checkout.session.completed''"
    and "obj_metadata_api_key ev = None"
  shows "webhook cfg env d payload sig_header =
           (d, Inr \<lparr>status = 200, body = [(''received'', JBool True)]\<rparr>)"
  using assms by (simp add: webhook_def apply_event_def jsonify_def)

theorem webhook_checkout_without_api_key_witness:
  "webhook cfg0 (stripe_up (ev_checkout None)) [alice, bob] ''{}'' (Some ''whsec_test'') =
     ([alice, bob], Inr \<lparr>status = 200, body = [(''received'', JBool True)]\<rparr>)"
  using webhook_checkout_without_api_key
          [of "stripe_up (ev_checkout None)" "''{}''" "Some ''whsec_test''" cfg0
              "ev_checkout None" "[alice, bob]"]
  by (simp add: stripe_up_def cfg0_def ev_checkout_def)

subsection \<open>The concurrency bound\<close>

text \<open>
  Claim C9. Every operation of the service keeps the invariant that each account's
  \<^verbatim>\<open>max_workers\<close> is 1 or 8: whatever the request and whatever the processor
  answers, a table within the bound is followed by a table within the bound.
\<close>

theorem handle_preserves_workers_ok:
  assumes "workers_ok d"
  shows "workers_ok (fst (handle cfg env d req))"
proof (cases req)
  case Health
  with assms show ?thesis by (simp add: health_def)
next
  case (Register em token expires created)
  with assms show ?thesis by (simp add: workers_ok_register)
next
  case (Verify header now)
  with assms show ?thesis by (simp add: workers_ok_verify)
next
  case (CreateCheckout header)
  with assms show ?thesis by (simp add: create_checkout_db)
next
  case (CancelSubscription header)
  with assms show ?thesis by (simp add: cancel_subscription_db)
next
  case (Webhook payload sig_header)
  with assms show ?thesis by (simp add: workers_ok_webhook)
next
  case AdminStats
  with assms show ?thesis by (simp add: admin_stats_def)
qed

theorem handle_preserves_workers_ok_witness:
  "workers_ok [alice, bob] \<and>
   fst (handle cfg0 (stripe_up (ev_updated ''unpaid'')) [alice, bob]
          (Webhook ''{}'' (Some ''whsec_test'')))
     = [alice, bob\<lparr>plan := ''free'', max_workers := 1\<rparr>] \<and>
   workers_ok [alice, bob\<lparr>plan := ''free'', max_workers := 1\<rparr>]"
proof -
  have ok: "workers_ok [alice, bob]"
    by (simp add: workers_ok_def alice_def bob_def)
  have run: "fst (handle cfg0 (stripe_up (ev_updated ''unpaid'')) [alice, bob]
                    (Webhook ''{}'' (Some ''whsec_test'')))
     = [alice, bob\<lparr>plan := ''free'', max_workers := 1\<rparr>]"
    by (simp add: webhook_def apply_event_def sql_update_def cfg0_def stripe_up_def
          ev_updated_def alice_def bob_def)
  from handle_preserves_workers_ok
         [OF ok, of cfg0 "stripe_up (ev_updated ''unpaid'')" "Webhook ''{}'' (Some ''whsec_test'')"]
  show ?thesis using ok run by simp
qed

end
